theory Spec2Isabelle
  imports Main "HOL-Library.Word" "HOL-Library.FSet"
begin

section \<open>CPropertyBase.hpp: the property base class\<close>

text \<open>
  The development follows \<^verbatim>\<open>Source/csav/csystem/CPropertyBase.hpp\<close>: the abstract class
  \<^verbatim>\<open>CProperty\<close> (kind, skippable flag, listener set, event posting) and its only concrete
  subclass in the file, \<^verbatim>\<open>CUnknownProperty\<close> (an opaque byte buffer).
\<close>

subsection \<open>Enumerations\<close>

text \<open>\<^verbatim>\<open>enum class EPropertyKind\<close>; the enumerator \<^verbatim>\<open>None\<close> is spelt \<open>None_kind\<close> here.\<close>

datatype EPropertyKind =
    None_kind | Unknown | Bool | Integer | Float | Double | Combo
  | Array | DynArray | Handle | Object | TweakDBID | CName | NodeRef

text \<open>\<^verbatim>\<open>enum class EPropertyEvent { data_modified, }\<close>\<close>

datatype EPropertyEvent = data_modified

subsection \<open>Listeners\<close>

text \<open>
  A \<^verbatim>\<open>CPropertyListener*\<close> is identified by its address. \<^verbatim>\<open>std::set<CPropertyListener*>\<close>
  is a finite set that iterates in ascending address order.

  \<^verbatim>\<open>on_cproperty_event\<close> is pure virtual: what a listener does is code outside the class.
  It receives a \<^verbatim>\<open>shared_ptr<const CProperty>\<close>, so the model lets a callback perform any
  sequence of the operations the const interface offers on the property itself:
  \<^verbatim>\<open>add_listener\<close>, \<^verbatim>\<open>remove_listener\<close> and reading \<^verbatim>\<open>is_skippable_in_serialization()\<close>.
  The sequence may depend on the listener, the property as it is when the callback starts
  and the event. A callback that posts events on the same property again (through the const
  \<^verbatim>\<open>imgui_widget\<close> overload or a \<^verbatim>\<open>const_cast\<close>) is outside the model, as is a property
  that is not owned by a \<^verbatim>\<open>shared_ptr\<close> (\<^verbatim>\<open>shared_from_this()\<close> would throw).
\<close>

type_synonym listener = nat

datatype listener_op =
    AddListener listener
  | RemoveListener listener
  | ReadSkippable

text \<open>What the callbacks leave behind: which listener was called with which event, and
  what each read of the skippable flag returned.\<close>

datatype notification =
    Delivered listener EPropertyEvent
  | Observed listener bool

subsection \<open>class CProperty\<close>

text \<open>
  The members of \<^verbatim>\<open>CProperty\<close>; \<open>payload\<close> stands for the members a subclass adds.
  \<^verbatim>\<open>m_property_kind\<close> and \<^verbatim>\<open>m_is_skippable_in_ser\<close> are private, so the virtual
  functions a subclass supplies are modelled as functions on the payload.
\<close>

record 'd CProperty =
  m_property_kind :: EPropertyKind
  m_is_skippable_in_ser :: bool
  m_listeners :: "listener fset"
  payload :: 'd

type_synonym 'd callbacks = "listener \<Rightarrow> 'd CProperty \<Rightarrow> EPropertyEvent \<Rightarrow> listener_op list"

text \<open>A property together with the record of what its listeners have seen so far.\<close>

record 'd world =
  self :: "'d CProperty"
  trace :: "notification list"

text \<open>\<^verbatim>\<open>explicit CProperty(EPropertyKind kind)\<close>, with the default member initialisers.\<close>

definition CProperty_ctor :: "EPropertyKind \<Rightarrow> 'd \<Rightarrow> 'd CProperty" where
  "CProperty_ctor k d =
     \<lparr>m_property_kind = k, m_is_skippable_in_ser = True, m_listeners = {||}, payload = d\<rparr>"

definition kind :: "'d CProperty \<Rightarrow> EPropertyKind" where
  "kind p = m_property_kind p"

definition is_skippable_in_serialization :: "'d CProperty \<Rightarrow> bool" where
  "is_skippable_in_serialization p = m_is_skippable_in_ser p"

text \<open>\<^verbatim>\<open>listeners.insert(listener)\<close> and \<^verbatim>\<open>listeners.erase(listener)\<close>.\<close>

definition add_listener :: "listener \<Rightarrow> 'd CProperty \<Rightarrow> 'd CProperty" where
  "add_listener l p = p\<lparr>m_listeners := finsert l (m_listeners p)\<rparr>"

definition remove_listener :: "listener \<Rightarrow> 'd CProperty \<Rightarrow> 'd CProperty" where
  "remove_listener l p = p\<lparr>m_listeners := m_listeners p |-| {|l|}\<rparr>"

text \<open>One operation of the callback of listener \<open>l\<close>.\<close>

fun listener_step :: "listener \<Rightarrow> listener_op \<Rightarrow> 'd world \<Rightarrow> 'd world" where
  "listener_step l (AddListener l') w = w\<lparr>self := add_listener l' (self w)\<rparr>"
| "listener_step l (RemoveListener l') w = w\<lparr>self := remove_listener l' (self w)\<rparr>"
| "listener_step l ReadSkippable w =
     w\<lparr>trace := trace w @ [Observed l (is_skippable_in_serialization (self w))]\<rparr>"

text \<open>\<^verbatim>\<open>l->on_cproperty_event(shared_from_this(), evt)\<close>\<close>

definition on_cproperty_event ::
  "'d callbacks \<Rightarrow> listener \<Rightarrow> EPropertyEvent \<Rightarrow> 'd world \<Rightarrow> 'd world" where
  "on_cproperty_event cb l evt w =
     fold (listener_step l) (cb l (self w) evt) (w\<lparr>trace := trace w @ [Delivered l evt]\<rparr>)"

text \<open>
  \<^verbatim>\<open>post_cproperty_event\<close>: copy the listener set, call every listener of the copy in
  ascending order, then clear the skippable flag when the event is \<^verbatim>\<open>data_modified\<close>.
\<close>

definition post_cproperty_event ::
  "'d callbacks \<Rightarrow> EPropertyEvent \<Rightarrow> 'd world \<Rightarrow> 'd world" where
  "post_cproperty_event cb evt w =
     (let listeners = m_listeners (self w);
          w' = fold (\<lambda>l. on_cproperty_event cb l evt) (sorted_list_of_fset listeners) w
      in if evt = data_modified
         then w'\<lparr>self := (self w')\<lparr>m_is_skippable_in_ser := False\<rparr>\<rparr>
         else w')"

text \<open>
  \<^verbatim>\<open>serialize_in\<close>: the subclass's \<^verbatim>\<open>serialize_in_impl\<close> runs first, then the event is posted
  whatever it returned. \<open>'s\<close> stands for the two reference arguments
  (\<^verbatim>\<open>std::istream&\<close>, \<^verbatim>\<open>CSystemSerCtx&\<close>) the implementation may change.
\<close>

definition serialize_in ::
  "('s \<Rightarrow> 'd \<Rightarrow> bool \<times> 's \<times> 'd) \<Rightarrow> 'd callbacks \<Rightarrow> 's \<Rightarrow> 'd world \<Rightarrow> bool \<times> 's \<times> 'd world" where
  "serialize_in serialize_in_impl cb is w =
     (case serialize_in_impl is (payload (self w)) of
        (ok, is', d') \<Rightarrow>
          (ok, is', post_cproperty_event cb data_modified (w\<lparr>self := (self w)\<lparr>payload := d'\<rparr>\<rparr>)))"

text \<open>
  \<^verbatim>\<open>imgui_widget(label, editable)\<close>: the event is posted only when the subclass's
  \<^verbatim>\<open>imgui_widget_impl\<close> reports a modification.
\<close>

definition imgui_widget ::
  "(string \<Rightarrow> bool \<Rightarrow> 'd \<Rightarrow> bool \<times> 'd) \<Rightarrow> 'd callbacks \<Rightarrow> string \<Rightarrow> bool \<Rightarrow> 'd world
     \<Rightarrow> bool \<times> 'd world" where
  "imgui_widget imgui_widget_impl cb label editable w =
     (case imgui_widget_impl label editable (payload (self w)) of
        (modified, d') \<Rightarrow>
          (let w1 = w\<lparr>self := (self w)\<lparr>payload := d'\<rparr>\<rparr>
           in (modified, if modified then post_cproperty_event cb data_modified w1 else w1)))"

text \<open>
  The base class's own \<^verbatim>\<open>imgui_widget_impl\<close> (widgets compiled in) draws a text line and
  reports no modification.
\<close>

definition CProperty_imgui_widget_impl :: "string \<Rightarrow> bool \<Rightarrow> 'd \<Rightarrow> bool \<times> 'd" where
  "CProperty_imgui_widget_impl label editable d = (False, d)"

text \<open>\<^verbatim>\<open>imgui_widget(label) const\<close>: the non-const overload with \<^verbatim>\<open>editable = false\<close>, result dropped.\<close>

definition imgui_widget_const ::
  "(string \<Rightarrow> bool \<Rightarrow> 'd \<Rightarrow> bool \<times> 'd) \<Rightarrow> 'd callbacks \<Rightarrow> string \<Rightarrow> 'd world \<Rightarrow> 'd world" where
  "imgui_widget_const imgui_widget_impl cb label w =
     snd (imgui_widget imgui_widget_impl cb label False w)"

subsection \<open>The operations of a property, as a sequence\<close>

text \<open>
  The three virtual functions a subclass supplies, and the operations that can be applied
  to a property one after the other. \<^verbatim>\<open>serialize_out\<close> is a const member: it receives the
  payload and returns no new one.
\<close>

record ('s, 'o, 'd) virtuals =
  v_serialize_in_impl :: "'s \<Rightarrow> 'd \<Rightarrow> bool \<times> 's \<times> 'd"
  v_serialize_out :: "'o \<Rightarrow> 'd \<Rightarrow> bool \<times> 'o"
  v_imgui_widget_impl :: "string \<Rightarrow> bool \<Rightarrow> 'd \<Rightarrow> bool \<times> 'd"

datatype ('s, 'o) operation =
    Op_serialize_in 's
  | Op_serialize_out 'o
  | Op_imgui_widget string bool
  | Op_imgui_widget_const string
  | Op_add_listener listener
  | Op_remove_listener listener
  | Op_post_cproperty_event EPropertyEvent

fun perform ::
  "('s, 'o, 'd) virtuals \<Rightarrow> 'd callbacks \<Rightarrow> ('s, 'o) operation \<Rightarrow> 'd world \<Rightarrow> 'd world" where
  "perform v cb (Op_serialize_in is) w = snd (snd (serialize_in (v_serialize_in_impl v) cb is w))"
| "perform v cb (Op_serialize_out os) w =
     (case v_serialize_out v os (payload (self w)) of (ok, os') \<Rightarrow> w)"
| "perform v cb (Op_imgui_widget label editable) w =
     snd (imgui_widget (v_imgui_widget_impl v) cb label editable w)"
| "perform v cb (Op_imgui_widget_const label) w =
     imgui_widget_const (v_imgui_widget_impl v) cb label w"
| "perform v cb (Op_add_listener l) w = w\<lparr>self := add_listener l (self w)\<rparr>"
| "perform v cb (Op_remove_listener l) w = w\<lparr>self := remove_listener l (self w)\<rparr>"
| "perform v cb (Op_post_cproperty_event evt) w = post_cproperty_event cb evt w"

subsection \<open>Reading the record of notifications\<close>

text \<open>The calls made to listeners, in order, and the values their reads of the flag returned.\<close>

fun deliveries :: "notification list \<Rightarrow> (listener \<times> EPropertyEvent) list" where
  "deliveries [] = []"
| "deliveries (Delivered l e # ns) = (l, e) # deliveries ns"
| "deliveries (Observed l b # ns) = deliveries ns"

fun observations :: "notification list \<Rightarrow> bool list" where
  "observations [] = []"
| "observations (Delivered l e # ns) = observations ns"
| "observations (Observed l b # ns) = b # observations ns"

text \<open>What was recorded between the world \<open>w\<close> and the later world \<open>w'\<close>.\<close>

definition since :: "'d world \<Rightarrow> 'd world \<Rightarrow> notification list" where
  "since w w' = drop (length (trace w)) (trace w')"

section \<open>The streams\<close>

text \<open>
  \<^verbatim>\<open>std::istream\<close> and \<^verbatim>\<open>std::ostream\<close> belong to the C++ standard library. They are modelled
  over an in-memory byte sequence, following the standard's description of the members the
  class calls (\<^verbatim>\<open>tellg\<close>, \<^verbatim>\<open>seekg\<close>, \<^verbatim>\<open>read\<close>, \<^verbatim>\<open>good\<close>, \<^verbatim>\<open>write\<close>), with the default exception
  mask, so that \<^verbatim>\<open>setstate\<close> never throws.

  The state bits are those of \<^verbatim>\<open>std::ios_base\<close>. The get area is kept as the bytes before
  the read position and the bytes from it to the end, so the position never passes the
  end. \<open>seekable\<close> says whether the stream buffer implements \<^verbatim>\<open>seekoff\<close>/\<^verbatim>\<open>seekpos\<close>: the
  defaults of \<^verbatim>\<open>std::basic_streambuf\<close> do nothing and return \<^verbatim>\<open>pos_type(off_type(-1))\<close>.
  Stream positions and offsets are signed 64-bit, so a stream is meant to hold fewer than
  \<open>2 ^ 63\<close> bytes.
\<close>

type_synonym byte = "8 word"

record ios =
  eofbit :: bool
  failbit :: bool
  badbit :: bool

definition good :: "'a ios_scheme \<Rightarrow> bool" where
  "good s = (\<not> eofbit s \<and> \<not> failbit s \<and> \<not> badbit s)"

definition fail :: "'a ios_scheme \<Rightarrow> bool" where
  "fail s = (failbit s \<or> badbit s)"

record istream = ios +
  consumed :: "byte list"
  pending :: "byte list"
  seekable :: bool

text \<open>\<^verbatim>\<open>istream::sentry\<close> with \<^verbatim>\<open>noskipws = true\<close>: on a stream that is not good it sets
  \<^verbatim>\<open>failbit\<close> and is false.\<close>

definition isentry :: "istream \<Rightarrow> bool \<times> istream" where
  "isentry is = (if good is then (True, is) else (False, is\<lparr>failbit := True\<rparr>))"

text \<open>\<^verbatim>\<open>rdbuf()->pubseekoff(0, cur, in)\<close>, \<^verbatim>\<open>rdbuf()->pubseekpos(p, in)\<close> and
  \<^verbatim>\<open>rdbuf()->pubseekoff(off, end, in)\<close>; \<open>None\<close> and \<open>- 1\<close> are the failure value.\<close>

definition pubseekoff_cur :: "istream \<Rightarrow> int" where
  "pubseekoff_cur is = (if seekable is then int (length (consumed is)) else - 1)"

definition pubseekpos :: "int \<Rightarrow> istream \<Rightarrow> istream option" where
  "pubseekpos p is =
     (let all = consumed is @ pending is
      in if seekable is \<and> 0 \<le> p \<and> p \<le> int (length all)
         then Some (is\<lparr>consumed := take (nat p) all, pending := drop (nat p) all\<rparr>)
         else None)"

definition pubseekoff_end :: "int \<Rightarrow> istream \<Rightarrow> istream option" where
  "pubseekoff_end off is = pubseekpos (int (length (consumed is @ pending is)) + off) is"

text \<open>\<^verbatim>\<open>tellg()\<close>: after the sentry, \<open>- 1\<close> when \<^verbatim>\<open>fail()\<close>, else the buffer's answer.\<close>

definition tellg :: "istream \<Rightarrow> int \<times> istream" where
  "tellg is =
     (case isentry is of
        (ok, is1) \<Rightarrow> if fail is1 then (- 1, is1) else (pubseekoff_cur is1, is1))"

text \<open>\<^verbatim>\<open>seekg(pos)\<close> and \<^verbatim>\<open>seekg(off, std::ios_base::end)\<close>: clear \<^verbatim>\<open>eofbit\<close>, build the sentry,
  seek unless \<^verbatim>\<open>fail()\<close>, and set \<^verbatim>\<open>failbit\<close> when the buffer cannot seek there.\<close>

definition seekg :: "int \<Rightarrow> istream \<Rightarrow> istream" where
  "seekg p is =
     (case isentry (is\<lparr>eofbit := False\<rparr>) of
        (ok, is1) \<Rightarrow>
          if fail is1 then is1
          else (case pubseekpos p is1 of
                  Some is2 \<Rightarrow> is2
                | None \<Rightarrow> is1\<lparr>failbit := True\<rparr>))"

definition seekg_end :: "int \<Rightarrow> istream \<Rightarrow> istream" where
  "seekg_end off is =
     (case isentry (is\<lparr>eofbit := False\<rparr>) of
        (ok, is1) \<Rightarrow>
          if fail is1 then is1
          else (case pubseekoff_end off is1 of
                  Some is2 \<Rightarrow> is2
                | None \<Rightarrow> is1\<lparr>failbit := True\<rparr>))"

text \<open>\<^verbatim>\<open>read(s, n)\<close>: nothing is extracted when the sentry is false; otherwise up to \<open>n\<close> bytes
  are, and running out before \<open>n\<close> sets \<^verbatim>\<open>eofbit | failbit\<close>. The bytes extracted are returned.\<close>

definition istream_read :: "nat \<Rightarrow> istream \<Rightarrow> byte list \<times> istream" where
  "istream_read n is =
     (case isentry is of
        (ok, is1) \<Rightarrow>
          if \<not> ok then ([], is1)
          else (let got = take n (pending is1);
                    is2 = is1\<lparr>consumed := consumed is1 @ got, pending := drop n (pending is1)\<rparr>
                in if length got < n then (got, is2\<lparr>eofbit := True, failbit := True\<rparr>)
                   else (got, is2)))"

text \<open>
  An output stream: the bytes written so far and the room left in the sink (\<open>None\<close> for a
  sink that grows, such as a string stream). \<^verbatim>\<open>write(s, n)\<close> inserts nothing when the sentry
  is false; otherwise it inserts until \<open>n\<close> bytes are in or the sink refuses one, which sets
  \<^verbatim>\<open>badbit\<close>. Which bit a false sentry adds to a stream that is already not good differs
  between library implementations; it is \<^verbatim>\<open>failbit\<close> here, and no statement below depends
  on the choice.
\<close>

record ostream = ios +
  written :: "byte list"
  space :: "nat option"

definition osentry :: "ostream \<Rightarrow> bool \<times> ostream" where
  "osentry os = (if good os then (True, os) else (False, os\<lparr>failbit := True\<rparr>))"

definition ostream_write :: "byte list \<Rightarrow> ostream \<Rightarrow> ostream" where
  "ostream_write s os =
     (case osentry os of
        (ok, os1) \<Rightarrow>
          if \<not> ok then os1
          else (let k = (case space os1 of None \<Rightarrow> length s | Some c \<Rightarrow> min c (length s));
                    os2 = os1\<lparr>written := written os1 @ take k s,
                              space := map_option (\<lambda>c. c - k) (space os1)\<rparr>
                in if k < length s then os2\<lparr>badbit := True\<rparr> else os2))"

definition has_room :: "nat \<Rightarrow> ostream \<Rightarrow> bool" where
  "has_room n os = (case space os of None \<Rightarrow> True | Some c \<Rightarrow> n \<le> c)"

text \<open>A seekable input stream over the given bytes (as \<^verbatim>\<open>std::istringstream\<close>), and an empty
  output stream that grows (as \<^verbatim>\<open>std::ostringstream\<close>).\<close>

definition istringstream :: "byte list \<Rightarrow> istream" where
  "istringstream bs = \<lparr>eofbit = False, failbit = False, badbit = False,
                        consumed = [], pending = bs, seekable = True\<rparr>"

definition ostringstream :: ostream where
  "ostringstream = \<lparr>eofbit = False, failbit = False, badbit = False, written = [], space = None\<rparr>"

text \<open>
  \<^verbatim>\<open>vector_streambuf\<close> of \<^verbatim>\<open>Source/utils.hpp\<close>: its constructor sets the get area to the vector
  and the class overrides nothing else, so an input stream over it reads but cannot seek.
\<close>

definition vector_streambuf_istream :: "byte list \<Rightarrow> istream" where
  "vector_streambuf_istream vec = \<lparr>eofbit = False, failbit = False, badbit = False,
                                    consumed = [], pending = vec, seekable = False\<rparr>"

section \<open>class CUnknownProperty\<close>

text \<open>
  The members \<^verbatim>\<open>CUnknownProperty\<close> adds. \<^verbatim>\<open>CSysName\<close> is declared in \<^verbatim>\<open>CStringPool.hpp\<close>; the
  class only stores and returns it, so an identifier number stands for it.
\<close>

type_synonym CSysName = nat

record CUnknownProperty_members =
  m_ctypename :: CSysName
  m_data :: "byte list"

type_synonym CUnknownProperty = "CUnknownProperty_members CProperty"

definition CUnknownProperty_ctor :: "CSysName \<Rightarrow> CUnknownProperty" where
  "CUnknownProperty_ctor ctypename =
     CProperty_ctor Unknown \<lparr>m_ctypename = ctypename, m_data = []\<rparr>"

definition raw_data :: "CUnknownProperty \<Rightarrow> byte list" where
  "raw_data p = m_data (payload p)"

definition ctypename :: "CUnknownProperty \<Rightarrow> CSysName" where
  "ctypename p = m_ctypename (payload p)"

text \<open>\<^verbatim>\<open>std::vector<char>::resize(n)\<close>: keeps the first \<open>n\<close> bytes and pads with zero bytes.\<close>

definition resize :: "nat \<Rightarrow> byte list \<Rightarrow> byte list" where
  "resize n xs = take n xs @ replicate (n - length xs) 0"

text \<open>The cast \<^verbatim>\<open>(size_t)\<close> of a stream offset, on a 64-bit target.\<close>

definition size_t_of :: "int \<Rightarrow> nat" where
  "size_t_of i = nat (i mod 2 ^ 64)"

text \<open>
  \<^verbatim>\<open>serialize_in_impl\<close>: remember the position, seek to the end, take the difference of the
  two positions as the size, seek back, resize the buffer and read that many bytes into
  it; the result is \<^verbatim>\<open>is.good()\<close>. The serialization context is not used.
\<close>

definition CUnknownProperty_serialize_in_impl ::
  "istream \<times> 'c \<Rightarrow> CUnknownProperty_members \<Rightarrow> bool \<times> (istream \<times> 'c) \<times> CUnknownProperty_members" where
  "CUnknownProperty_serialize_in_impl a d =
     (case a of (is, serctx) \<Rightarrow>
      case tellg is of (beg, is1) \<Rightarrow>
      let is2 = seekg_end 0 is1 in
      case tellg is2 of (e, is3) \<Rightarrow>
      let size = size_t_of (e - beg);
          is4 = seekg beg is3;
          data1 = resize size (m_data d) in
      case istream_read size is4 of (got, is5) \<Rightarrow>
        (good is5, (is5, serctx), d\<lparr>m_data := got @ drop (length got) data1\<rparr>))"

text \<open>\<^verbatim>\<open>serialize_out\<close>: \<^verbatim>\<open>os.write(m_data.data(), m_data.size()); return true;\<close>\<close>

definition CUnknownProperty_serialize_out ::
  "ostream \<times> 'c \<Rightarrow> CUnknownProperty_members \<Rightarrow> bool \<times> (ostream \<times> 'c)" where
  "CUnknownProperty_serialize_out a d =
     (case a of (os, serctx) \<Rightarrow> (True, (ostream_write (m_data d) os, serctx)))"

text \<open>\<^verbatim>\<open>imgui_widget_impl\<close>: draws, and returns \<^verbatim>\<open>false\<close> on both of its paths.\<close>

definition CUnknownProperty_imgui_widget_impl ::
  "string \<Rightarrow> bool \<Rightarrow> CUnknownProperty_members \<Rightarrow> bool \<times> CUnknownProperty_members" where
  "CUnknownProperty_imgui_widget_impl label editable d = (False, d)"

definition CUnknownProperty_virtuals ::
  "(istream \<times> 'c, ostream \<times> 'c, CUnknownProperty_members) virtuals" where
  "CUnknownProperty_virtuals =
     \<lparr>v_serialize_in_impl = CUnknownProperty_serialize_in_impl,
      v_serialize_out = CUnknownProperty_serialize_out,
      v_imgui_widget_impl = CUnknownProperty_imgui_widget_impl\<rparr>"

section \<open>Concrete listeners, properties and streams\<close>

text \<open>Used where a statement is evaluated at an explicit input.\<close>

definition new_world :: "'d CProperty \<Rightarrow> 'd world" where
  "new_world p = \<lparr>self = p, trace = []\<rparr>"

text \<open>Listeners that do nothing, that read the flag, and where listener 1 unregisters
  itself and listener 2 and registers listener 3.\<close>

definition silent :: "'d callbacks" where
  "silent l p evt = []"

definition inspecting :: "'d callbacks" where
  "inspecting l p evt = [ReadSkippable]"

definition unregistering :: "'d callbacks" where
  "unregistering l p evt =
     (if l = 1 then [RemoveListener 1, RemoveListener 2, AddListener 3, ReadSkippable]
      else [ReadSkippable])"

text \<open>A freshly constructed property with a number as payload and listeners 1 and 2; a
  widget that increments the number when editable.\<close>

definition two_listeners :: "nat CProperty" where
  "two_listeners = add_listener 2 (add_listener 1 (CProperty_ctor Integer 0))"

definition edit_impl :: "string \<Rightarrow> bool \<Rightarrow> nat \<Rightarrow> bool \<times> nat" where
  "edit_impl label editable d = (if editable then (True, Suc d) else (False, d))"

definition counter_serialize_in_impl :: "unit \<Rightarrow> nat \<Rightarrow> bool \<times> unit \<times> nat" where
  "counter_serialize_in_impl s d = (True, s, 0)"

definition counter_serialize_out :: "unit \<Rightarrow> nat \<Rightarrow> bool \<times> unit" where
  "counter_serialize_out s d = (True, s)"

definition counter_virtuals :: "(unit, unit, nat) virtuals" where
  "counter_virtuals = \<lparr>v_serialize_in_impl = counter_serialize_in_impl,
                       v_serialize_out = counter_serialize_out,
                       v_imgui_widget_impl = edit_impl\<rparr>"

text \<open>A stream of four bytes of which the first has been read, and an output stream whose
  sink is full.\<close>

definition abc_istream :: istream where
  "abc_istream = snd (istream_read 1 (istringstream [0x40, 0x41, 0x42, 0x43]))"

definition full_ostream :: ostream where
  "full_ostream = \<lparr>eofbit = False, failbit = False, badbit = False, written = [], space = Some 0\<rparr>"


section \<open>Properties of the base class\<close>

subsection \<open>What a round of callbacks can change\<close>

text \<open>
  A callback changes the listener set and the record of notifications only: the flag, the
  kind and the payload are as before. Each callback adds one delivery to the record, and
  every value a read of the flag returns is the flag's value when the round started.
\<close>

lemma deliveries_append: "deliveries (xs @ ys) = deliveries xs @ deliveries ys"
  by (induction xs rule: deliveries.induct) simp_all

lemma observations_append: "observations (xs @ ys) = observations xs @ observations ys"
  by (induction xs rule: observations.induct) simp_all

lemma listener_step_frame:
  "m_is_skippable_in_ser (self (listener_step l a w)) = m_is_skippable_in_ser (self w)"
  "m_property_kind (self (listener_step l a w)) = m_property_kind (self w)"
  "payload (self (listener_step l a w)) = payload (self w)"
  by (cases a; simp add: add_listener_def remove_listener_def)+

lemma listener_steps_frame:
  "m_is_skippable_in_ser (self (fold (listener_step l) as w)) = m_is_skippable_in_ser (self w)"
  "m_property_kind (self (fold (listener_step l) as w)) = m_property_kind (self w)"
  "payload (self (fold (listener_step l) as w)) = payload (self w)"
  by (induction as arbitrary: w; simp add: listener_step_frame)+

lemma listener_steps_trace:
  "\<exists>ns. trace (fold (listener_step l) as w) = trace w @ ns \<and> deliveries ns = []
        \<and> set (observations ns) \<subseteq> {m_is_skippable_in_ser (self w)}"
proof (induction as arbitrary: w)
  case Nil
  show ?case by simp
next
  case (Cons a as)
  obtain ns where ns: "trace (fold (listener_step l) as (listener_step l a w)) = trace (listener_step l a w) @ ns"
      "deliveries ns = []" "set (observations ns) \<subseteq> {m_is_skippable_in_ser (self (listener_step l a w))}"
    using Cons.IH [of "listener_step l a w"] by blast
  obtain ms where ms: "trace (listener_step l a w) = trace w @ ms" "deliveries ms = []"
      "set (observations ms) \<subseteq> {m_is_skippable_in_ser (self w)}"
    by (cases a) (simp_all add: is_skippable_in_serialization_def)
  have "trace (fold (listener_step l) (a # as) w) = trace w @ (ms @ ns)"
    using ns(1) ms(1) by simp
  moreover have "deliveries (ms @ ns) = []"
    using ns(2) ms(2) by (simp add: deliveries_append)
  moreover have "set (observations (ms @ ns)) \<subseteq> {m_is_skippable_in_ser (self w)}"
    using ns(3) ms(3) by (simp add: observations_append listener_step_frame)
  ultimately show ?case by blast
qed

lemma on_cproperty_event_frame:
  "m_is_skippable_in_ser (self (on_cproperty_event cb l evt w)) = m_is_skippable_in_ser (self w)"
  "m_property_kind (self (on_cproperty_event cb l evt w)) = m_property_kind (self w)"
  "payload (self (on_cproperty_event cb l evt w)) = payload (self w)"
  by (simp_all add: on_cproperty_event_def listener_steps_frame)

lemma on_cproperty_event_trace:
  "\<exists>ns. trace (on_cproperty_event cb l evt w) = trace w @ ns \<and> deliveries ns = [(l, evt)]
        \<and> set (observations ns) \<subseteq> {m_is_skippable_in_ser (self w)}"
proof -
  let ?w1 = "w\<lparr>trace := trace w @ [Delivered l evt]\<rparr>"
  obtain ns where ns: "trace (fold (listener_step l) (cb l (self w) evt) ?w1) = trace ?w1 @ ns"
      "deliveries ns = []" "set (observations ns) \<subseteq> {m_is_skippable_in_ser (self ?w1)}"
    using listener_steps_trace [of l "cb l (self w) evt" ?w1] by blast
  have "trace (on_cproperty_event cb l evt w) = trace w @ (Delivered l evt # ns)"
    using ns(1) by (simp add: on_cproperty_event_def)
  moreover have "deliveries (Delivered l evt # ns) = [(l, evt)]"
    using ns(2) by simp
  moreover have "set (observations (Delivered l evt # ns)) \<subseteq> {m_is_skippable_in_ser (self w)}"
    using ns(3) by simp
  ultimately show ?thesis by blast
qed

lemma notify_all_frame:
  "m_is_skippable_in_ser (self (fold (\<lambda>l. on_cproperty_event cb l evt) ls w)) = m_is_skippable_in_ser (self w)"
  "m_property_kind (self (fold (\<lambda>l. on_cproperty_event cb l evt) ls w)) = m_property_kind (self w)"
  "payload (self (fold (\<lambda>l. on_cproperty_event cb l evt) ls w)) = payload (self w)"
  by (induction ls arbitrary: w; simp add: on_cproperty_event_frame)+

lemma notify_all_trace:
  "\<exists>ns. trace (fold (\<lambda>l. on_cproperty_event cb l evt) ls w) = trace w @ ns
        \<and> deliveries ns = map (\<lambda>l. (l, evt)) ls
        \<and> set (observations ns) \<subseteq> {m_is_skippable_in_ser (self w)}"
proof (induction ls arbitrary: w)
  case Nil
  show ?case by simp
next
  case (Cons l ls)
  let ?w1 = "on_cproperty_event cb l evt w"
  obtain ms where ms: "trace ?w1 = trace w @ ms" "deliveries ms = [(l, evt)]"
      "set (observations ms) \<subseteq> {m_is_skippable_in_ser (self w)}"
    using on_cproperty_event_trace [of cb l evt w] by blast
  obtain ns where ns: "trace (fold (\<lambda>l. on_cproperty_event cb l evt) ls ?w1) = trace ?w1 @ ns"
      "deliveries ns = map (\<lambda>l. (l, evt)) ls"
      "set (observations ns) \<subseteq> {m_is_skippable_in_ser (self ?w1)}"
    using Cons.IH [of ?w1] by blast
  have "trace (fold (\<lambda>l. on_cproperty_event cb l evt) (l # ls) w) = trace w @ (ms @ ns)"
    using ms(1) ns(1) by simp
  moreover have "deliveries (ms @ ns) = map (\<lambda>l. (l, evt)) (l # ls)"
    using ms(2) ns(2) by (simp add: deliveries_append)
  moreover have "set (observations (ms @ ns)) \<subseteq> {m_is_skippable_in_ser (self w)}"
    using ms(3) ns(3) by (simp add: observations_append on_cproperty_event_frame)
  ultimately show ?case by blast
qed

lemma post_cproperty_event_trace:
  "\<exists>ns. trace (post_cproperty_event cb evt w) = trace w @ ns
        \<and> deliveries ns = map (\<lambda>l. (l, evt)) (sorted_list_of_fset (m_listeners (self w)))
        \<and> set (observations ns) \<subseteq> {m_is_skippable_in_ser (self w)}"
  using notify_all_trace [of cb evt "sorted_list_of_fset (m_listeners (self w))" w]
  by (auto simp: post_cproperty_event_def Let_def)

lemma post_cproperty_event_since:
  "deliveries (since w (post_cproperty_event cb evt w)) =
     map (\<lambda>l. (l, evt)) (sorted_list_of_fset (m_listeners (self w)))"
  "set (observations (since w (post_cproperty_event cb evt w))) \<subseteq> {m_is_skippable_in_ser (self w)}"
  using post_cproperty_event_trace [of cb evt w] by (auto simp: since_def)

lemma post_cproperty_event_frame:
  "m_property_kind (self (post_cproperty_event cb evt w)) = m_property_kind (self w)"
  "payload (self (post_cproperty_event cb evt w)) = payload (self w)"
  by (simp_all add: post_cproperty_event_def Let_def notify_all_frame)

lemma post_cproperty_event_flag:
  "m_is_skippable_in_ser (self (post_cproperty_event cb evt w)) =
     (if evt = data_modified then False else m_is_skippable_in_ser (self w))"
  by (simp add: post_cproperty_event_def Let_def notify_all_frame)

lemma since_update_self [simp]: "since (w\<lparr>self := p\<rparr>) w' = since w w'"
  by (simp add: since_def)

lemma count_list_tagged: "count_list (map (\<lambda>l. (l, e)) ls) (l, e) = count_list ls l"
  by (induction ls) simp_all

lemma count_list_distinct: "distinct ls \<Longrightarrow> count_list ls l = (if l \<in> set ls then 1 else 0)"
  by (induction ls) auto

lemma count_sorted_list_of_fset:
  "count_list (sorted_list_of_fset S) l = (if l |\<in>| S then 1 else 0)"
  by (simp add: count_list_distinct sorted_list_of_fset.rep_eq)

lemma perform_keeps_flag_down:
  "\<not> m_is_skippable_in_ser (self w) \<Longrightarrow> \<not> m_is_skippable_in_ser (self (perform v cb a w))"
  by (cases a)
     (simp_all add: serialize_in_def imgui_widget_def imgui_widget_const_def Let_def
        post_cproperty_event_flag add_listener_def remove_listener_def split: prod.splits)

lemmas run_defs = post_cproperty_event_def on_cproperty_event_def add_listener_def
  remove_listener_def is_skippable_in_serialization_def CProperty_ctor_def new_world_def
  since_def sorted_list_of_fset.rep_eq Let_def

subsection \<open>Registering and unregistering listeners\<close>

text \<open>
  C9. Observation is not a mutation: \<open>add_listener\<close> and \<open>remove_listener\<close> change the
  listener set and nothing else. The skippable flag, the kind and the payload of the
  property are as before, the listener set gains (loses) exactly the given listener, and
  no listener is called: performed as an operation on a property with listeners, neither
  adds anything to the record of notifications.
\<close>

theorem listener_registration_frame:
  "is_skippable_in_serialization (add_listener l p) = is_skippable_in_serialization p
   \<and> kind (add_listener l p) = kind p
   \<and> payload (add_listener l p) = payload p
   \<and> m_listeners (add_listener l p) = finsert l (m_listeners p)
   \<and> is_skippable_in_serialization (remove_listener l p) = is_skippable_in_serialization p
   \<and> kind (remove_listener l p) = kind p
   \<and> payload (remove_listener l p) = payload p
   \<and> m_listeners (remove_listener l p) = m_listeners p |-| {|l|}
   \<and> trace (perform v cb (Op_add_listener l) w) = trace w
   \<and> trace (perform v cb (Op_remove_listener l) w) = trace w"
  by (simp add: add_listener_def remove_listener_def kind_def is_skippable_in_serialization_def)

subsection \<open>Posting an event\<close>

text \<open>
  C10. Snapshot semantics of a notification: whatever the callbacks do to the listener
  set while the event is in flight (unregister themselves or others, register new
  listeners), the listeners called are exactly those registered when the post started,
  each once, in ascending order.
\<close>

theorem post_iterates_snapshot:
  "deliveries (since w (post_cproperty_event cb evt w)) =
     map (\<lambda>l. (l, evt)) (sorted_list_of_fset (m_listeners (self w)))"
  by (rule post_cproperty_event_since)

text \<open>
  With listeners 1 and 2 registered, listener 1 unregisters both and registers listener 3
  from its callback: listener 2 is still called, listener 3 is not, and the set left
  behind is \<open>{3}\<close>.
\<close>

theorem post_iterates_snapshot_witness:
  "deliveries (since (new_world two_listeners)
      (post_cproperty_event unregistering data_modified (new_world two_listeners))) =
        [(1, data_modified), (2, data_modified)]
   \<and> m_listeners (self (post_cproperty_event unregistering data_modified
        (new_world two_listeners))) = {|3|}"
proof -
  have "m_listeners (self (post_cproperty_event unregistering data_modified
          (new_world two_listeners))) = {|3|}"
    by (auto simp: unregistering_def two_listeners_def run_defs)
  then show ?thesis
    using post_iterates_snapshot [of "new_world two_listeners" unregistering data_modified]
    by (simp add: two_listeners_def run_defs)
qed

text \<open>
  C3, as amended. The flag is cleared after the listeners have run, not before: once the
  post of \<open>data_modified\<close> has returned the flag is false, and every read of the flag made
  from inside a callback of that post returns the value the flag had when the post
  started.
\<close>

theorem flag_cleared_after_listeners_ran:
  "\<not> is_skippable_in_serialization (self (post_cproperty_event cb data_modified w))
   \<and> (\<forall>b \<in> set (observations (since w (post_cproperty_event cb data_modified w))).
         b = is_skippable_in_serialization (self w))"
  using post_cproperty_event_since(2) [of w cb data_modified]
  by (auto simp: is_skippable_in_serialization_def post_cproperty_event_flag)

theorem flag_cleared_after_listeners_ran_witness:
  "\<not> is_skippable_in_serialization
        (self (post_cproperty_event inspecting data_modified (new_world two_listeners)))
   \<and> observations (since (new_world two_listeners)
         (post_cproperty_event inspecting data_modified (new_world two_listeners))) = [True, True]
   \<and> is_skippable_in_serialization (self (new_world two_listeners))"
  using flag_cleared_after_listeners_ran [of inspecting "new_world two_listeners"]
  by (simp add: inspecting_def two_listeners_def run_defs)

text \<open>
  C3 as stated fails: on a freshly constructed property with listeners 1 and 2, an edit
  through \<open>imgui_widget\<close> calls both listeners, and each reads the flag as true.
\<close>

theorem listeners_see_old_flag_counterexample:
  "trace (snd (imgui_widget edit_impl inspecting ''x'' True (new_world two_listeners))) =
     [Delivered 1 data_modified, Observed 1 True, Delivered 2 data_modified, Observed 2 True]"
  by (simp add: imgui_widget_def edit_impl_def inspecting_def two_listeners_def run_defs)

subsection \<open>Loading\<close>

text \<open>
  C5. \<open>serialize_in\<close> returns exactly what the kind-specific \<open>serialize_in_impl\<close> returned
  (so false when that reports truncated or malformed input), and, whatever that result
  is, posts \<open>data_modified\<close> once: the listeners called are the registered ones, and every
  registered listener is called exactly once.
\<close>

theorem serialize_in_posts_once:
  "fst (serialize_in impl cb is w) = fst (impl is (payload (self w)))
   \<and> deliveries (since w (snd (snd (serialize_in impl cb is w)))) =
       map (\<lambda>l. (l, data_modified)) (sorted_list_of_fset (m_listeners (self w)))
   \<and> count_list (deliveries (since w (snd (snd (serialize_in impl cb is w))))) (l, data_modified) =
       (if l |\<in>| m_listeners (self w) then 1 else 0)"
proof -
  obtain ok is' d' where r: "impl is (payload (self w)) = (ok, is', d')"
    by (cases "impl is (payload (self w))")
  let ?w1 = "w\<lparr>self := (self w)\<lparr>payload := d'\<rparr>\<rparr>"
  have s: "serialize_in impl cb is w = (ok, is', post_cproperty_event cb data_modified ?w1)"
    by (simp add: serialize_in_def r)
  have d: "deliveries (since w (post_cproperty_event cb data_modified ?w1)) =
       map (\<lambda>l. (l, data_modified)) (sorted_list_of_fset (m_listeners (self w)))"
    using post_cproperty_event_since(1) [of ?w1 cb data_modified] by simp
  show ?thesis
    by (simp add: s r d count_list_tagged count_sorted_list_of_fset)
qed

text \<open>
  C2, as amended. The flag is true at construction. After \<open>serialize_in\<close> has returned,
  with either result, the flag is false: the load posts \<open>data_modified\<close>, and posting that
  event clears the flag.
\<close>

theorem skippable_after_serialize_in:
  "is_skippable_in_serialization (CProperty_ctor k d)
   \<and> \<not> is_skippable_in_serialization (self (snd (snd (serialize_in impl cb is w))))"
  by (simp add: is_skippable_in_serialization_def CProperty_ctor_def serialize_in_def
        post_cproperty_event_flag split: prod.splits)

subsection \<open>Editing\<close>

text \<open>
  C8. Synchronous broadcast on mutation: when \<open>imgui_widget_impl\<close> reports a modification,
  \<open>imgui_widget\<close> returns true and, by the time it returns, every listener that was
  registered when the notification started has been called with \<open>data_modified\<close>.
\<close>

theorem imgui_widget_broadcast:
  assumes "fst (impl label editable (payload (self w)))"
  shows "fst (imgui_widget impl cb label editable w)
   \<and> deliveries (since w (snd (imgui_widget impl cb label editable w))) =
       map (\<lambda>l. (l, data_modified)) (sorted_list_of_fset (m_listeners (self w)))"
proof -
  obtain d' where r: "impl label editable (payload (self w)) = (True, d')"
    using assms by (cases "impl label editable (payload (self w))") simp
  let ?w1 = "w\<lparr>self := (self w)\<lparr>payload := d'\<rparr>\<rparr>"
  have s: "imgui_widget impl cb label editable w = (True, post_cproperty_event cb data_modified ?w1)"
    by (simp add: imgui_widget_def r)
  have d: "deliveries (since w (post_cproperty_event cb data_modified ?w1)) =
       map (\<lambda>l. (l, data_modified)) (sorted_list_of_fset (m_listeners (self w)))"
    using post_cproperty_event_since(1) [of ?w1 cb data_modified] by simp
  show ?thesis
    by (simp add: s d)
qed

text \<open>Two registered listeners, one edit: both have been called when the edit returns.\<close>

theorem imgui_widget_broadcast_witness:
  "fst (edit_impl ''x'' True (payload (self (new_world two_listeners))))
   \<and> fst (imgui_widget edit_impl silent ''x'' True (new_world two_listeners))
   \<and> deliveries (since (new_world two_listeners)
        (snd (imgui_widget edit_impl silent ''x'' True (new_world two_listeners)))) =
       [(1, data_modified), (2, data_modified)]"
proof -
  have h: "fst (edit_impl ''x'' True (payload (self (new_world two_listeners))))"
    by (simp add: edit_impl_def)
  show ?thesis
    using h imgui_widget_broadcast [where impl = edit_impl and cb = silent, OF h]
    by (simp add: two_listeners_def run_defs)
qed

subsection \<open>The flag never comes back\<close>

text \<open>
  C6. Skippable flag monotonicity: once \<open>is_skippable_in_serialization\<close> is false, it is
  false after any sequence of loads, saves, widget calls, listener registrations and
  removals, and event posts, whatever the subclass's implementations and the listeners do.
\<close>

theorem skippable_never_reverts:
  "\<not> is_skippable_in_serialization (self w)
   \<Longrightarrow> \<not> is_skippable_in_serialization (self (fold (perform v cb) ops w))"
  unfolding is_skippable_in_serialization_def
  by (induction ops arbitrary: w) (simp_all add: perform_keeps_flag_down)

theorem skippable_never_reverts_witness:
  "\<not> is_skippable_in_serialization
        (self (post_cproperty_event silent data_modified (new_world two_listeners)))
   \<and> \<not> is_skippable_in_serialization
        (self (fold (perform counter_virtuals inspecting)
           [Op_serialize_in (), Op_serialize_out (), Op_imgui_widget ''x'' True,
            Op_imgui_widget_const ''x'', Op_add_listener 4, Op_remove_listener 1,
            Op_post_cproperty_event data_modified]
           (post_cproperty_event silent data_modified (new_world two_listeners))))"
proof -
  have h: "\<not> is_skippable_in_serialization
        (self (post_cproperty_event silent data_modified (new_world two_listeners)))"
    by (simp add: is_skippable_in_serialization_def post_cproperty_event_flag)
  show ?thesis
    by (rule conjI [OF h skippable_never_reverts [OF h]])
qed

section \<open>Properties of CUnknownProperty\<close>

subsection \<open>The stream operations on usable and unusable streams\<close>

lemmas stream_defs = tellg_def isentry_def good_def fail_def pubseekoff_cur_def seekg_end_def
  pubseekoff_end_def pubseekpos_def seekg_def size_t_of_def resize_def istream_read_def
  osentry_def ostream_write_def has_room_def

lemma size_t_of_small: "n < 2 ^ 64 \<Longrightarrow> size_t_of (int n) = n"
proof -
  assume "n < 2 ^ 64"
  then have "int n mod 2 ^ 64 = int n"
    by (intro mod_pos_pos_trivial) simp_all
  then show ?thesis
    by (simp add: size_t_of_def)
qed

lemma size_t_of_0: "size_t_of 0 = 0"
  by (simp add: size_t_of_def)

text \<open>On a good, seekable stream the load takes every byte from the position to the end,
  replaces the buffer with them and leaves the stream good, at its end.\<close>

lemma serialize_in_impl_reads_all:
  assumes "good is" "seekable is" "length (pending is) < 2 ^ 64"
  shows "CUnknownProperty_serialize_in_impl (is, serctx) d =
           (True, (is\<lparr>consumed := consumed is @ pending is, pending := []\<rparr>, serctx),
            d\<lparr>m_data := pending is\<rparr>)"
proof -
  let ?n = "length (consumed is)" and ?all = "consumed is @ pending is"
  have t1: "tellg is = (int ?n, is)"
    using assms(1,2) by (simp add: tellg_def isentry_def fail_def good_def pubseekoff_cur_def)
  let ?is2 = "is\<lparr>consumed := ?all, pending := []\<rparr>"
  have g: "is\<lparr>eofbit := False\<rparr> = is"
    using assms(1) by (simp add: good_def)
  have s2: "seekg_end 0 is = ?is2"
    using assms(1,2)
    by (simp add: seekg_end_def g isentry_def fail_def good_def pubseekoff_end_def pubseekpos_def)
  have g2: "good ?is2" "seekable ?is2" "?is2\<lparr>eofbit := False\<rparr> = ?is2"
    using assms(1,2) by (simp_all add: good_def)
  have t3: "tellg ?is2 = (int (length ?all), ?is2)"
    using g2 by (simp add: tellg_def isentry_def fail_def good_def pubseekoff_cur_def)
  have sz: "size_t_of (int (length (consumed is) + length (pending is)) - int (length (consumed is)))
      = length (pending is)"
    using assms(3) size_t_of_small [of "length (pending is)"] by simp
  have s4: "seekg (int ?n) ?is2 = is"
    using g2 assms(1,2) by (simp add: seekg_def isentry_def fail_def good_def pubseekpos_def)
  have r: "istream_read (length (pending is)) is = (pending is, ?is2)"
    using assms(1) by (simp add: istream_read_def isentry_def Let_def)
  show ?thesis
    unfolding CUnknownProperty_serialize_in_impl_def
    by (simp add: t1 s2 t3 sz s4 r g2 Let_def resize_def del: of_nat_add)
qed

text \<open>On a stream that is not good, or cannot seek, every step fails: both positions are
  \<open>- 1\<close>, the size is 0, the buffer is emptied and the result is false.\<close>

lemma tellg_unusable:
  "\<not> (good is \<and> seekable is) \<Longrightarrow> fst (tellg is) = - 1"
  by (auto simp: tellg_def isentry_def pubseekoff_cur_def good_def fail_def)

lemma tellg_after_failed: "fail is \<Longrightarrow> tellg is = (- 1, is\<lparr>failbit := True\<rparr>)"
  by (auto simp: tellg_def isentry_def good_def fail_def)

lemma seekg_end_unusable:
  "\<not> (good is \<and> seekable is) \<Longrightarrow> fail (seekg_end off (snd (tellg is)))"
  by (auto simp: tellg_def seekg_end_def isentry_def good_def fail_def pubseekoff_end_def
        pubseekpos_def Let_def)

lemma seekg_failed: "fail is \<Longrightarrow> fail (seekg p is)"
  by (auto simp: seekg_def isentry_def good_def fail_def)

lemma read_failed: "fail is \<Longrightarrow> istream_read n is = ([], is\<lparr>failbit := True\<rparr>)"
  by (auto simp: istream_read_def isentry_def good_def fail_def)

lemma serialize_in_impl_unusable_stream:
  assumes "\<not> (good is \<and> seekable is)"
  shows "fst (CUnknownProperty_serialize_in_impl (is, serctx) d) = False
       \<and> m_data (snd (snd (CUnknownProperty_serialize_in_impl (is, serctx) d))) = []"
proof -
  obtain beg is1 where t1: "tellg is = (beg, is1)"
    by (cases "tellg is")
  have beg: "beg = - 1"
    using tellg_unusable [OF assms] t1 by simp
  let ?is2 = "seekg_end 0 is1"
  have f2: "fail ?is2"
    using seekg_end_unusable [OF assms, of 0] t1 by simp
  have t3: "tellg ?is2 = (- 1, ?is2\<lparr>failbit := True\<rparr>)"
    by (rule tellg_after_failed [OF f2])
  let ?is3 = "?is2\<lparr>failbit := True\<rparr>"
  have f3: "fail ?is3"
    by (simp add: fail_def)
  have f4: "fail (seekg (- 1) ?is3)"
    by (rule seekg_failed [OF f3])
  have r: "istream_read 0 (seekg (- 1) ?is3) = ([], (seekg (- 1) ?is3)\<lparr>failbit := True\<rparr>)"
    by (rule read_failed [OF f4])
  show ?thesis
    unfolding CUnknownProperty_serialize_in_impl_def
    by (simp add: t1 beg t3 size_t_of_0 r Let_def resize_def good_def)
qed

text \<open>In particular a load from a stream over \<open>vector_streambuf\<close> fails and stores nothing.\<close>

lemma vector_streambuf_load_fails:
  "fst (serialize_in CUnknownProperty_serialize_in_impl cb (vector_streambuf_istream vec, serctx) w)
     = False
   \<and> raw_data (self (snd (snd (serialize_in CUnknownProperty_serialize_in_impl cb
         (vector_streambuf_istream vec, serctx) w)))) = []"
proof -
  have "\<not> (good (vector_streambuf_istream vec) \<and> seekable (vector_streambuf_istream vec))"
    by (simp add: vector_streambuf_istream_def)
  from serialize_in_impl_unusable_stream [OF this, of serctx "payload (self w)"]
  show ?thesis
    by (auto simp: serialize_in_def raw_data_def post_cproperty_event_frame split: prod.splits)
qed

text \<open>The result of the load is true exactly when the stream has no fault afterwards:
  a read never leaves \<open>eofbit\<close> set alone.\<close>

lemma istream_read_good_or_fail:
  "good (snd (istream_read n is)) = (\<not> fail (snd (istream_read n is)))"
  by (auto simp: istream_read_def isentry_def good_def fail_def Let_def)

lemma serialize_in_impl_ok_iff_no_fault:
  assumes "CUnknownProperty_serialize_in_impl (is, serctx) d = (ok, (is', serctx'), d')"
  shows "ok = (\<not> fail is')"
proof -
  obtain n is4 got where r: "istream_read n is4 = (got, is')" and ok: "ok = good is'"
    using assms unfolding CUnknownProperty_serialize_in_impl_def Let_def
    by (fastforce split: prod.splits)
  have "is' = snd (istream_read n is4)"
    using r by simp
  then show ?thesis
    using ok istream_read_good_or_fail [of n is4] by simp
qed

lemma write_all:
  "good os \<Longrightarrow> has_room (length s) os \<Longrightarrow> written (ostream_write s os) = written os @ s"
  by (auto simp: ostream_write_def osentry_def has_room_def Let_def split: option.splits)

lemma write_all_state:
  "good os \<Longrightarrow> has_room (length s + n) os \<Longrightarrow>
     good (ostream_write s os) \<and> has_room n (ostream_write s os)"
  by (auto simp: ostream_write_def osentry_def has_room_def good_def Let_def split: option.splits)

subsection \<open>Load, then save\<close>

text \<open>
  C1. Round-trip identity of the fallback: let the stream handed to \<open>serialize_in\<close> be in
  good state and seekable, and hold exactly the bytes \<open>b\<close> (any bytes, none included) from
  its position to its end. Then the load succeeds and stores \<open>b\<close>, and a following
  \<open>serialize_out\<close>, with nothing done to the payload in between, writes exactly \<open>b\<close> to an
  output stream that is good and has room for it. The listeners called by the load may do
  anything the model lets them.
\<close>

theorem unknown_round_trip:
  assumes "good is" and "seekable is" and "pending is = b" and "length b < 2 ^ 63"
    and "good os" and "has_room (length b) os"
    and "serialize_in CUnknownProperty_serialize_in_impl cb (is, serctx) w = (ok, io, w')"
    and "CUnknownProperty_serialize_out (os, serctx') (payload (self w')) = (ok', os', serctx'')"
  shows "ok \<and> ok' \<and> raw_data (self w') = b \<and> written os' = written os @ b"
proof -
  have "length (pending is) < (2::nat) ^ 64"
    using assms(3,4) by (simp add: order_less_trans [of _ "2 ^ 63"])
  note impl = serialize_in_impl_reads_all [OF assms(1,2) this, of serctx "payload (self w)"]
  have ok: "ok" and w': "w' = post_cproperty_event cb data_modified
                (w\<lparr>self := (self w)\<lparr>payload := (payload (self w))\<lparr>m_data := pending is\<rparr>\<rparr>\<rparr>)"
    using assms(7) by (simp_all add: serialize_in_def impl)
  have data: "m_data (payload (self w')) = b"
    by (simp add: w' post_cproperty_event_frame assms(3))
  have out: "ok'" "os' = ostream_write b os"
    using assms(8) by (auto simp: CUnknownProperty_serialize_out_def data)
  show ?thesis
    using ok out data write_all [OF assms(5,6)] by (simp add: raw_data_def)
qed

text \<open>A stream of four bytes with the first one already read: the other three are loaded
  and written back.\<close>

theorem unknown_round_trip_witness:
  "good abc_istream \<and> seekable abc_istream \<and> pending abc_istream = [0x41, 0x42, 0x43]
   \<and> good ostringstream \<and> has_room 3 ostringstream
   \<and> serialize_in CUnknownProperty_serialize_in_impl silent (abc_istream, ())
        (new_world (CUnknownProperty_ctor 7)) =
       (True, (abc_istream\<lparr>consumed := [0x40, 0x41, 0x42, 0x43], pending := []\<rparr>, ()),
        \<lparr>self = (CUnknownProperty_ctor 7)\<lparr>m_is_skippable_in_ser := False,
                    payload := \<lparr>m_ctypename = 7, m_data = [0x41, 0x42, 0x43]\<rparr>\<rparr>, trace = []\<rparr>)
   \<and> written (fst (snd (CUnknownProperty_serialize_out (ostringstream, ())
         \<lparr>m_ctypename = 7, m_data = [0x41, 0x42, 0x43]\<rparr>))) = [0x41, 0x42, 0x43]"
proof -
  have a: "good abc_istream" "seekable abc_istream" "pending abc_istream = [0x41, 0x42, 0x43]"
    by (simp_all add: abc_istream_def istringstream_def istream_read_def isentry_def good_def Let_def)
  have b: "good ostringstream" "has_room (length [0x41, 0x42, 0x43 :: byte]) ostringstream"
    by (simp_all add: ostringstream_def good_def has_room_def)
  have l: "length [0x41, 0x42, 0x43 :: byte] < 2 ^ 63"
    by simp
  have c: "serialize_in CUnknownProperty_serialize_in_impl silent (abc_istream, ())
        (new_world (CUnknownProperty_ctor 7)) =
       (True, (abc_istream\<lparr>consumed := [0x40, 0x41, 0x42, 0x43], pending := []\<rparr>, ()),
        \<lparr>self = (CUnknownProperty_ctor 7)\<lparr>m_is_skippable_in_ser := False,
                    payload := \<lparr>m_ctypename = 7, m_data = [0x41, 0x42, 0x43]\<rparr>\<rparr>, trace = []\<rparr>)"
    by (simp add: serialize_in_def CUnknownProperty_serialize_in_impl_def stream_defs abc_istream_def
        istringstream_def CUnknownProperty_ctor_def silent_def run_defs)
  have d: "CUnknownProperty_serialize_out (ostringstream, ())
        (payload (self \<lparr>self = (CUnknownProperty_ctor 7)\<lparr>m_is_skippable_in_ser := False,
                    payload := \<lparr>m_ctypename = 7, m_data = [0x41, 0x42, 0x43]\<rparr>\<rparr>, trace = []\<rparr>))
       = (True, ostringstream\<lparr>written := [0x41, 0x42, 0x43]\<rparr>, ())"
    by (simp add: CUnknownProperty_serialize_out_def stream_defs ostringstream_def)
  have r: "has_room 3 ostringstream"
    by (simp add: ostringstream_def has_room_def)
  show ?thesis
    using a b(1) r c unknown_round_trip [OF a l b c d]
    by (simp add: d [simplified])
qed

text \<open>
  C2 as stated fails: a freshly constructed unknown property loads two bytes
  successfully, and its flag is false afterwards.
\<close>

theorem load_clears_skippable_counterexample:
  "fst (serialize_in CUnknownProperty_serialize_in_impl silent (istringstream [0x41, 0x42], ())
          (new_world (CUnknownProperty_ctor 0)))
   \<and> \<not> is_skippable_in_serialization (self (snd (snd
          (serialize_in CUnknownProperty_serialize_in_impl silent (istringstream [0x41, 0x42], ())
             (new_world (CUnknownProperty_ctor 0))))))"
  by (simp add: serialize_in_def CUnknownProperty_serialize_in_impl_def stream_defs istringstream_def
        new_world_def CUnknownProperty_ctor_def CProperty_ctor_def post_cproperty_event_def silent_def
        is_skippable_in_serialization_def Let_def)

subsection \<open>Saving twice\<close>

text \<open>
  C7. Idempotent save: \<open>serialize_out\<close> is a const member, so it is given the payload and
  returns none; two consecutive calls on the same payload, to an output stream that is
  good and has room for both, each append exactly the stored buffer.
\<close>

theorem unknown_serialize_out_idempotent:
  assumes "good os" and "has_room (length (m_data d) + length (m_data d)) os"
    and "CUnknownProperty_serialize_out (os, serctx) d = (ok1, os1, serctx1)"
    and "CUnknownProperty_serialize_out (os1, serctx1) d = (ok2, os2, serctx2)"
  shows "written os1 = written os @ m_data d \<and> written os2 = written os1 @ m_data d"
proof -
  have os1: "os1 = ostream_write (m_data d) os"
    using assms(3) by (auto simp: CUnknownProperty_serialize_out_def)
  have os2: "os2 = ostream_write (m_data d) os1"
    using assms(4) by (auto simp: CUnknownProperty_serialize_out_def)
  have st: "good os1" "has_room (length (m_data d)) os1"
    using write_all_state [OF assms(1,2)] by (simp_all add: os1)
  have "has_room (length (m_data d)) os"
    using assms(2) by (auto simp: has_room_def split: option.splits)
  then have "written os1 = written os @ m_data d"
    using write_all [OF assms(1)] by (simp add: os1)
  moreover have "written os2 = written os1 @ m_data d"
    using write_all [OF st] by (simp add: os2)
  ultimately show ?thesis by simp
qed

theorem unknown_serialize_out_idempotent_witness:
  "good ostringstream \<and> has_room 4 ostringstream
   \<and> CUnknownProperty_serialize_out (ostringstream, ()) \<lparr>m_ctypename = 7, m_data = [0x41, 0x42]\<rparr>
       = (True, ostringstream\<lparr>written := [0x41, 0x42]\<rparr>, ())
   \<and> CUnknownProperty_serialize_out (ostringstream\<lparr>written := [0x41, 0x42]\<rparr>, ())
         \<lparr>m_ctypename = 7, m_data = [0x41, 0x42]\<rparr>
       = (True, ostringstream\<lparr>written := [0x41, 0x42, 0x41, 0x42]\<rparr>, ())"
proof -
  let ?d = "\<lparr>m_ctypename = 7, m_data = [0x41, 0x42]\<rparr>"
  have a: "good ostringstream" "has_room (length (m_data ?d) + length (m_data ?d)) ostringstream"
    by (simp_all add: ostringstream_def good_def has_room_def)
  have c: "CUnknownProperty_serialize_out (ostringstream, ()) ?d
       = (True, ostringstream\<lparr>written := [0x41, 0x42]\<rparr>, ())"
    by (simp add: CUnknownProperty_serialize_out_def stream_defs ostringstream_def)
  have d: "CUnknownProperty_serialize_out (ostringstream\<lparr>written := [0x41, 0x42]\<rparr>, ()) ?d
       = (True, ostringstream\<lparr>written := [0x41, 0x42, 0x41, 0x42]\<rparr>, ())"
    by (simp add: CUnknownProperty_serialize_out_def stream_defs ostringstream_def)
  have r: "has_room 4 ostringstream"
    by (simp add: ostringstream_def has_room_def)
  show ?thesis
    using a(1) r c d unknown_serialize_out_idempotent [OF a c d] by simp
qed

subsection \<open>Stream faults\<close>

text \<open>
  C4. A stream fault is to surface as a false result. The load does so
  (\<open>serialize_in_impl_ok_iff_no_fault\<close>); the save does not: writing a one-byte buffer to
  an output stream whose sink is full sets \<open>badbit\<close> and writes nothing, and
  \<open>serialize_out\<close> still returns true.
\<close>

theorem unknown_serialize_out_hides_fault:
  "CUnknownProperty_serialize_out (full_ostream, ()) \<lparr>m_ctypename = 0, m_data = [0x41]\<rparr>
     = (True, full_ostream\<lparr>badbit := True\<rparr>, ())
   \<and> fail (full_ostream\<lparr>badbit := True\<rparr>)
   \<and> written (full_ostream\<lparr>badbit := True\<rparr>) = []"
  by (simp add: CUnknownProperty_serialize_out_def full_ostream_def ostream_write_def osentry_def
        good_def fail_def Let_def)

end
